theory Spec2Isabelle
  imports Complex_Main "HOL-Library.Word"
begin

section \<open>Container runtime drivers of containerlab: containerd and podman\<close>

text \<open>
  A shallow embedding of the two runtime drivers: the containerd driver
  (\<^verbatim>\<open>package containerd\<close>: \<^verbatim>\<open>SetMgmtNet\<close>, \<^verbatim>\<open>PullImageIfRequired\<close>,
  \<^verbatim>\<open>CreateContainer\<close>, \<^verbatim>\<open>StopContainer\<close>, \<^verbatim>\<open>filterStringBuilder\<close>,
  \<^verbatim>\<open>extractIPInfoFromLabels\<close>) and the helpers of the podman driver
  (\<^verbatim>\<open>runtime/podman/util.go\<close>: \<^verbatim>\<open>createContainerSpec\<close>, \<^verbatim>\<open>convertMounts\<close>,
  \<^verbatim>\<open>netOpts\<close>, \<^verbatim>\<open>buildFilterString\<close>).

  Go strings are byte strings: \<^typ>\<open>string\<close>, one \<^typ>\<open>char\<close> per byte, so
  \<^const>\<open>length\<close> is Go's \<^verbatim>\<open>len\<close>. An \<^verbatim>\<open>error\<close> return is the left
  summand of a sum type; a run-time panic is an error value of its own.
\<close>

subsection \<open>Errors and log entries\<close>

datatype error =
    ErrInvalidBind string
      \<comment> \<open>\<^verbatim>\<open>fmt.Errorf("%w: %s", errInvalidBind, mnt)\<close>\<close>
  | ErrContainerNetMode string "string list"
      \<comment> \<open>container network mode without a container name: short name, split mode\<close>
  | ErrNetModeUnsupported "string list"
      \<comment> \<open>\<^verbatim>\<open>network Mode %q is not currently supported with Podman\<close>\<close>
  | ErrNum string
      \<comment> \<open>\<^verbatim>\<open>*strconv.NumError\<close> of \<^verbatim>\<open>Atoi\<close> for the given input\<close>
  | ErrNotFound string
      \<comment> \<open>the engine has no such container, or no task for it\<close>
  | ErrLib string
      \<comment> \<open>an error returned by a library or by the container engine\<close>
  | ErrCancelled
      \<comment> \<open>\<^verbatim>\<open>ctx.Err()\<close>: the caller's context is done\<close>
  | PanicIndex nat nat
      \<comment> \<open>index out of range: the index and the length\<close>
  | PanicNilMap
      \<comment> \<open>assignment to an entry of a nil map\<close>

subsection \<open>The \<^verbatim>\<open>strings\<close> package\<close>

text \<open>
  \<^verbatim>\<open>strings.Index\<close> for a separator of one byte, as a cut: the text before the first
  occurrence and the text after it.
\<close>

fun cut :: "char \<Rightarrow> string \<Rightarrow> (string \<times> string) option" where
  "cut c [] = None"
| "cut c (x # xs) =
     (if x = c then Some ([], xs)
      else (case cut c xs of None \<Rightarrow> None | Some (a, b) \<Rightarrow> Some (x # a, b)))"

text \<open>
  \<^verbatim>\<open>strings.SplitN(s, sep, n)\<close> for \<open>n \<ge> 0\<close> and a separator of one byte
  (\<^verbatim>\<open>genSplit\<close>): no substring for \<open>n = 0\<close>, otherwise at most \<open>n\<close> substrings, the
  last one being the unsplit rest.
\<close>

fun SplitN :: "string \<Rightarrow> char \<Rightarrow> nat \<Rightarrow> string list" where
  "SplitN s c 0 = []"
| "SplitN s c (Suc 0) = [s]"
| "SplitN s c (Suc (Suc n)) =
     (case cut c s of None \<Rightarrow> [s] | Some (a, b) \<Rightarrow> a # SplitN b c (Suc n))"

text \<open>
  \<^verbatim>\<open>strings.Split(s, sep)\<close> is \<^verbatim>\<open>genSplit\<close> with \<open>n = Count(s, sep) + 1\<close>.
\<close>

definition Split :: "string \<Rightarrow> char \<Rightarrow> string list" where
  "Split s c = SplitN s c (Suc (count_list s c))"

text \<open>Indexing a slice: out of range is a run-time panic.\<close>

definition index :: "'a list \<Rightarrow> nat \<Rightarrow> error + 'a" where
  "index xs i = (if i < length xs then Inr (xs ! i) else Inl (PanicIndex i (length xs)))"

subsection \<open>Bind mounts\<close>

text \<open>\<^verbatim>\<open>specs.Mount\<close> of the OCI runtime specification.\<close>

record Mount =
  Destination :: string
  Type :: string
  Source :: string
  Options :: "string list"

text \<open>
  The podman driver, \<^verbatim>\<open>convertMounts\<close>: the body of the loop for one bind, then the
  loop. The first malformed bind ends the loop with the error.
\<close>

definition convertMount :: "string \<Rightarrow> error + Mount" where
  "convertMount mnt =
     (let mntSplit = SplitN mnt CHR '':'' 3 in
      if length mntSplit = 1 then Inl (ErrInvalidBind mnt)
      else
        (case index mntSplit 1 of Inl e \<Rightarrow> Inl e | Inr dst \<Rightarrow>
         case index mntSplit 0 of Inl e \<Rightarrow> Inl e | Inr src \<Rightarrow>
           (let m = \<lparr>Destination = dst, Type = ''bind'', Source = src, Options = []\<rparr> in
            if length mntSplit = 3
            then (case index mntSplit 2 of Inl e \<Rightarrow> Inl e
                  | Inr opts \<Rightarrow> Inr (m\<lparr>Options := Split opts CHR '',''\<rparr>))
            else Inr m)))"

fun convertMounts_loop :: "string list \<Rightarrow> error + Mount list" where
  "convertMounts_loop [] = Inr []"
| "convertMounts_loop (mnt # mounts) =
     (case convertMount mnt of Inl e \<Rightarrow> Inl e
      | Inr m \<Rightarrow> (case convertMounts_loop mounts of Inl e \<Rightarrow> Inl e | Inr ms \<Rightarrow> Inr (m # ms)))"

definition convertMounts :: "string list \<Rightarrow> error + Mount list" where
  "convertMounts mounts = (if length mounts = 0 then Inr [] else convertMounts_loop mounts)"

text \<open>
  The containerd driver, the loop over \<^verbatim>\<open>node.Binds\<close> in \<^verbatim>\<open>CreateContainer\<close>: the
  bind is split at every colon, \<^verbatim>\<open>s[0]\<close> and \<^verbatim>\<open>s[1]\<close> are read without a check of the
  length, and the options are read from \<^verbatim>\<open>s[2]\<close> when \<^verbatim>\<open>len(mount) == 3\<close>, the
  length of the string.
\<close>

definition CreateContainer_mount :: "string \<Rightarrow> error + Mount" where
  "CreateContainer_mount mount =
     (let s = Split mount CHR '':'' in
      case index s 0 of Inl e \<Rightarrow> Inl e | Inr src \<Rightarrow>
      case index s 1 of Inl e \<Rightarrow> Inl e | Inr dst \<Rightarrow>
        (let m = \<lparr>Destination = dst, Type = [], Source = src,
                  Options = [''rbind'', ''rprivate'']\<rparr> in
         if length mount = 3
         then (case index s 2 of Inl e \<Rightarrow> Inl e
               | Inr opts \<Rightarrow> Inr (m\<lparr>Options := Options m @ Split opts CHR '',''\<rparr>))
         else Inr m))"

fun CreateContainer_mounts :: "string list \<Rightarrow> error + Mount list" where
  "CreateContainer_mounts [] = Inr []"
| "CreateContainer_mounts (mount # binds) =
     (case CreateContainer_mount mount of Inl e \<Rightarrow> Inl e
      | Inr m \<Rightarrow> (case CreateContainer_mounts binds of Inl e \<Rightarrow> Inl e | Inr ms \<Rightarrow> Inr (m # ms)))"

subsection \<open>The management network\<close>

text \<open>\<^verbatim>\<open>types.MgmtNet\<close>, with the fields the two drivers read.\<close>

record MgmtNet =
  Network :: string
  Bridge :: string
  IPv4Subnet :: string
  IPv4Gw :: string
  IPv6Subnet :: string
  IPv6Gw :: string
  MTU :: string

text \<open>
  The containerd driver keeps the descriptor in its field \<^verbatim>\<open>Mgmt\<close>; the other fields
  of \<^verbatim>\<open>ContainerdRuntime\<close> (client handle, time-out, flags) are not written by
  \<^verbatim>\<open>SetMgmtNet\<close>.
\<close>

record ContainerdRuntime =
  Mgmt :: MgmtNet

definition SetMgmtNet :: "ContainerdRuntime \<Rightarrow> MgmtNet \<Rightarrow> ContainerdRuntime" where
  "SetMgmtNet c n =
     (let n' =
        (if Bridge n = [] then
           (let netname = ''clab'';
                netname = (if Network n = [] then Network n else netname)
            in n\<lparr>Bridge := ''br-'' @ netname\<rparr>)
         else n)
      in c\<lparr>Mgmt := n'\<rparr>)"

text \<open>
  The podman driver derives the bridge name at the head of \<^verbatim>\<open>netOpts\<close>: the name of
  the network itself, when no bridge name was given and the network has a name.
\<close>

definition netOpts_bridge :: "MgmtNet \<Rightarrow> MgmtNet" where
  "netOpts_bridge mgmt =
     (if Bridge mgmt = [] \<and> Network mgmt \<noteq> [] then mgmt\<lparr>Bridge := Network mgmt\<rparr> else mgmt)"

subsection \<open>The container engine\<close>

text \<open>
  The containerd client is a library: the driver sees it through its calls. The
  model keeps what the calls depend on (the names of the images in the local store,
  and for every container whether it has a task and in which state) and the calls
  issued so far, in order.
\<close>

datatype ProcessStatus = Created | Running | Paused | Pausing | Stopped | Unknown

datatype call =
    ListImages
  | Pull string
  | LoadContainer string
  | Task string
  | Status string
  | Wait string
  | Resume string
  | Kill string
  | ExitWait string
  | Delete string

record engine =
  images :: "string list"
  conts :: "string \<Rightarrow> ProcessStatus option option"
  calls :: "call list"

text \<open>
  What the engine does beyond its state is a parameter: \<open>fails\<close> says which calls
  return an error, and \<open>exit_wait\<close> says how the wait for the exit of a task ends.
\<close>

datatype wait_outcome =
    Exited "error option"
      \<comment> \<open>the exit status arrives on the channel; \<^verbatim>\<open>status.Error()\<close>\<close>
  | CtxDone
      \<comment> \<open>the context is done first\<close>
  | Never
      \<comment> \<open>neither happens: the \<^verbatim>\<open>select\<close> blocks\<close>

record world =
  fails :: "call \<Rightarrow> error option"
  exit_wait :: "string \<Rightarrow> wait_outcome"

definition issue :: "call \<Rightarrow> engine \<Rightarrow> engine" where
  "issue k e = e\<lparr>calls := calls e @ [k]\<rparr>"

subsection \<open>Pulling an image\<close>

text \<open>
  \<^verbatim>\<open>PullImageIfRequired\<close>. \<^verbatim>\<open>utils.GetCanonicalImageName\<close> is a parameter
  (\<open>canon\<close>). \<^verbatim>\<open>ListImages\<close> is called without a filter and returns every image of
  the store; a successful \<^verbatim>\<open>Pull\<close> adds the image to the store. The result is the
  returned error, \<open>None\<close> for \<^verbatim>\<open>nil\<close>.
\<close>

definition PullImageIfRequired ::
  "world \<Rightarrow> (string \<Rightarrow> string) \<Rightarrow> engine \<Rightarrow> string \<Rightarrow> error option \<times> engine" where
  "PullImageIfRequired w canon e imagename =
     (let canonicalimage = canon imagename;
          e1 = issue ListImages e
      in case fails w ListImages of
           Some err \<Rightarrow> (Some err, e1)
         | None \<Rightarrow>
             (let imgs = images e1 in
              if length imgs > 0 then (None, e1)
              else
                (let e2 = issue (Pull canonicalimage) e1
                 in case fails w (Pull canonicalimage) of
                      Some err \<Rightarrow> (Some err, e2)
                    | None \<Rightarrow> (None, e2\<lparr>images := images e2 @ [canonicalimage]\<rparr>))))"

subsection \<open>Management addresses from labels\<close>

text \<open>
  \<^verbatim>\<open>strconv.Atoi\<close>: an optional sign, then decimal digits, at least one, and a value
  in the range of a 64-bit \<^verbatim>\<open>int\<close>; anything else is a \<^verbatim>\<open>NumError\<close>.
\<close>

definition digit :: "char \<Rightarrow> nat option" where
  "digit c =
     (if of_char CHR ''0'' \<le> (of_char c :: nat) \<and> (of_char c :: nat) \<le> of_char CHR ''9''
      then Some (of_char c - of_char CHR ''0'') else None)"

fun digits :: "string \<Rightarrow> nat \<Rightarrow> nat option" where
  "digits [] n = Some n"
| "digits (c # cs) n = (case digit c of None \<Rightarrow> None | Some d \<Rightarrow> digits cs (n * 10 + d))"

definition Atoi :: "string \<Rightarrow> error + int" where
  "Atoi s =
     (let neg = (s \<noteq> [] \<and> hd s = CHR ''-'');
          ds = (if s \<noteq> [] \<and> (hd s = CHR ''-'' \<or> hd s = CHR ''+'') then tl s else s)
      in if ds = [] then Inl (ErrNum s)
         else
           (case digits ds 0 of
              None \<Rightarrow> Inl (ErrNum s)
            | Some n \<Rightarrow>
                if neg then (if n \<le> 2 ^ 63 then Inr (- int n) else Inl (ErrNum s))
                else (if n < 2 ^ 63 then Inr (int n) else Inl (ErrNum s))))"

text \<open>\<^verbatim>\<open>types.GenericMgmtIPs\<close>.\<close>

record GenericMgmtIPs =
  Set :: bool
  IPv4addr :: string
  IPv4pLen :: int
  IPv6addr :: string
  IPv6pLen :: int
  IPv4Gw :: string

text \<open>Reading a Go map of strings: a missing key reads as the empty string.\<close>

definition lookup :: "(string \<Rightarrow> string option) \<Rightarrow> string \<Rightarrow> string" where
  "lookup m k = (case m k of None \<Rightarrow> [] | Some v \<Rightarrow> v)"

text \<open>
  \<^verbatim>\<open>extractIPInfoFromLabels\<close>: one step per netmask label, each setting the flag and
  parsing the prefix length when the label exists, then the record.
\<close>

definition netmask_label ::
  "(string \<Rightarrow> string option) \<Rightarrow> string \<Rightarrow> bool \<times> int \<Rightarrow> error + bool \<times> int" where
  "netmask_label labels k st =
     (case labels k of
        None \<Rightarrow> Inr st
      | Some val \<Rightarrow> (case Atoi val of Inl err \<Rightarrow> Inl err | Inr n \<Rightarrow> Inr (True, n)))"

definition extractIPInfoFromLabels :: "(string \<Rightarrow> string option) \<Rightarrow> error + GenericMgmtIPs" where
  "extractIPInfoFromLabels labels =
     (case netmask_label labels ''clab.ipv4.netmask'' (False, 0) of
        Inl err \<Rightarrow> Inl err
      | Inr (isSet4, ipv4mask) \<Rightarrow>
          (case netmask_label labels ''clab.ipv6.netmask'' (isSet4, 0) of
             Inl err \<Rightarrow> Inl err
           | Inr (isSet, ipv6mask) \<Rightarrow>
               Inr \<lparr>Set = isSet, IPv4addr = lookup labels ''clab.ipv4.addr'',
                    IPv4pLen = ipv4mask, IPv6addr = lookup labels ''clab.ipv6.addr'',
                    IPv6pLen = ipv6mask, IPv4Gw = []\<rparr>))"

subsection \<open>Filters and the log\<close>

text \<open>\<^verbatim>\<open>types.GenericFilter\<close>.\<close>

record GenericFilter =
  FilterType :: string
  Field :: string
  Operator :: string
  Match :: string

text \<open>
  A line of the log: its level, the format string of the call and the arguments,
  unformatted.
\<close>

datatype level = DebugLevel | WarnLevel | ErrorLevel

datatype arg =
    AStr string
  | AStrs "string list"
  | AErr error
  | AFilter GenericFilter
  | AFilters "GenericFilter list"
  | AFilterMap "string \<Rightarrow> string list option"
  | AMounts "Mount list"

datatype log = Log level string "arg list"

fun level_of :: "log \<Rightarrow> level" where
  "level_of (Log l fmt args) = l"

definition warnings :: "log list \<Rightarrow> log list" where
  "warnings logs = filter (\<lambda>l. level_of l = WarnLevel) logs"

subsection \<open>Stopping a container\<close>

text \<open>
  \<^verbatim>\<open>getContainerTask\<close>: the container is loaded, then its task; either call can fail,
  and the engine answers not-found when it has no such container or no task for it.
  The task handle is the name of the container.
\<close>

definition getContainerTask :: "world \<Rightarrow> engine \<Rightarrow> string \<Rightarrow> (error + string) \<times> engine" where
  "getContainerTask w e containername =
     (let e1 = issue (LoadContainer containername) e
      in case fails w (LoadContainer containername) of
           Some err \<Rightarrow> (Inl err, e1)
         | None \<Rightarrow>
             (case conts e1 containername of
                None \<Rightarrow> (Inl (ErrNotFound containername), e1)
              | Some t \<Rightarrow>
                  (let e2 = issue (Task containername) e1
                   in case fails w (Task containername) of
                        Some err \<Rightarrow> (Inl err, e2)
                      | None \<Rightarrow>
                          (case t of
                             None \<Rightarrow> (Inl (ErrNotFound containername), e2)
                           | Some st \<Rightarrow> (Inr containername, e2)))))"

text \<open>
  The calls on a task. A successful \<^verbatim>\<open>Resume\<close> leaves the task running, a successful
  \<^verbatim>\<open>Delete\<close> removes the task record from the engine; \<^verbatim>\<open>Wait\<close> and \<^verbatim>\<open>Kill\<close> do not
  change the record (the process exits later, which the wait for the exit reports).
\<close>

definition task_Status :: "world \<Rightarrow> engine \<Rightarrow> string \<Rightarrow> (error + ProcessStatus) \<times> engine" where
  "task_Status w e ctask =
     (let e1 = issue (Status ctask) e
      in case fails w (Status ctask) of
           Some err \<Rightarrow> (Inl err, e1)
         | None \<Rightarrow>
             (case conts e1 ctask of
                Some (Some st) \<Rightarrow> (Inr st, e1)
              | _ \<Rightarrow> (Inl (ErrNotFound ctask), e1)))"

definition task_Wait :: "world \<Rightarrow> engine \<Rightarrow> string \<Rightarrow> error option \<times> engine" where
  "task_Wait w e ctask = (fails w (Wait ctask), issue (Wait ctask) e)"

definition task_Resume :: "world \<Rightarrow> engine \<Rightarrow> string \<Rightarrow> error option \<times> engine" where
  "task_Resume w e ctask =
     (let e1 = issue (Resume ctask) e
      in case fails w (Resume ctask) of
           Some err \<Rightarrow> (Some err, e1)
         | None \<Rightarrow> (None, e1\<lparr>conts := (conts e1)(ctask := Some (Some Running))\<rparr>))"

definition task_Kill :: "world \<Rightarrow> engine \<Rightarrow> string \<Rightarrow> error option \<times> engine" where
  "task_Kill w e ctask = (fails w (Kill ctask), issue (Kill ctask) e)"

definition task_Delete :: "world \<Rightarrow> engine \<Rightarrow> string \<Rightarrow> error option \<times> engine" where
  "task_Delete w e ctask =
     (let e1 = issue (Delete ctask) e
      in case fails w (Delete ctask) of
           Some err \<Rightarrow> (Some err, e1)
         | None \<Rightarrow> (None, e1\<lparr>conts := (conts e1)(ctask := Some None)\<rparr>))"

text \<open>
  A call either returns its error (\<open>None\<close> for \<^verbatim>\<open>nil\<close>) or does not return.
\<close>

datatype ret = Returns "error option" | Blocks

text \<open>
  \<^verbatim>\<open>waitContainerStop\<close>: the \<^verbatim>\<open>select\<close> between the context and the exit channel.
  When the exit status arrives the task is stopped.
\<close>

definition waitContainerStop :: "world \<Rightarrow> engine \<Rightarrow> string \<Rightarrow> ret \<times> engine" where
  "waitContainerStop w e id' =
     (let e1 = issue (ExitWait id') e
      in case exit_wait w id' of
           CtxDone \<Rightarrow> (Returns (Some ErrCancelled), e1)
         | Exited status \<Rightarrow>
             (Returns status, e1\<lparr>conts := (conts e1)(id' := Some (Some Stopped))\<rparr>)
         | Never \<Rightarrow> (Blocks, e1))"

text \<open>
  \<^verbatim>\<open>StopContainer\<close>. The result is what the call returns, the engine afterwards and
  the lines logged. The tail of the function, from \<^verbatim>\<open>ctask.Delete\<close> on, comes first.
  The variable \<^verbatim>\<open>paused\<close> is not read after the resume, so its reset is left out.
\<close>

definition StopContainer_delete ::
  "world \<Rightarrow> engine \<Rightarrow> string \<Rightarrow> string \<Rightarrow> log list \<Rightarrow> ret \<times> engine \<times> log list" where
  "StopContainer_delete w e ctask containername logs =
     (case task_Delete w e ctask of
        (Some err, e') \<Rightarrow> (Returns (Some err), e', logs)
      | (None, e') \<Rightarrow>
          (Returns None, e',
           logs @ [Log DebugLevel ''Container %s stopped with exit code %d''
                     [AStr containername]]))"

definition StopContainer :: "world \<Rightarrow> engine \<Rightarrow> string \<Rightarrow> ret \<times> engine \<times> log list" where
  "StopContainer w e containername =
     (case getContainerTask w e containername of
        (Inl err, e1) \<Rightarrow>
          (Returns None, e1,
           [Log DebugLevel ''no task found for container %s'' [AStr containername]])
      | (Inr ctask, e1) \<Rightarrow>
          (case task_Status w e1 ctask of
             (Inl err, e2) \<Rightarrow> (Returns (Some err), e2, [])
           | (Inr taskstatus, e2) \<Rightarrow>
               (let (paused, needsStop) =
                      (case taskstatus of
                         Created \<Rightarrow> (False, False)
                       | Stopped \<Rightarrow> (False, False)
                       | Paused \<Rightarrow> (True, True)
                       | Pausing \<Rightarrow> (True, True)
                       | _ \<Rightarrow> (False, True))
                in if needsStop then
                     (case task_Wait w e2 ctask of
                        (Some err, e3) \<Rightarrow> (Returns (Some err), e3, [])
                      | (None, e3) \<Rightarrow>
                          (let (e4, logs) =
                                 (if paused then
                                    (case task_Resume w e3 ctask of
                                       (Some err, e4) \<Rightarrow>
                                         (e4, [Log WarnLevel ''Cannot unpause container %s: %s''
                                                 [AStr containername, AErr err]])
                                     | (None, e4) \<Rightarrow> (e4, []))
                                  else (e3, []))
                           in case task_Kill w e4 ctask of
                                (Some err, e5) \<Rightarrow> (Returns (Some err), e5, logs)
                              | (None, e5) \<Rightarrow>
                                  (case waitContainerStop w e5 containername of
                                     (Blocks, e6) \<Rightarrow> (Blocks, e6, logs)
                                   | (Returns (Some err), e6) \<Rightarrow> (Returns (Some err), e6, logs)
                                   | (Returns None, e6) \<Rightarrow>
                                       StopContainer_delete w e6 ctask containername logs)))
                   else StopContainer_delete w e2 ctask containername [])))"

text \<open>
  What a call of the driver saw and did: the state of the task as the first two
  calls of \<^verbatim>\<open>StopContainer\<close> observe it, the calls issued between two states of the
  engine, and the test that no \<open>b\<close> stands in a sequence before the first \<open>a\<close>.
\<close>

definition observed :: "world \<Rightarrow> engine \<Rightarrow> string \<Rightarrow> ProcessStatus option" where
  "observed w e containername =
     (case getContainerTask w e containername of
        (Inl err, e1) \<Rightarrow> None
      | (Inr ctask, e1) \<Rightarrow>
          (case task_Status w e1 ctask of (Inl err, e2) \<Rightarrow> None | (Inr st, e2) \<Rightarrow> Some st))"

definition issued :: "engine \<Rightarrow> engine \<Rightarrow> call list" where
  "issued e e' = drop (length (calls e)) (calls e')"

fun first_then :: "'a \<Rightarrow> 'a \<Rightarrow> 'a list \<Rightarrow> bool" where
  "first_then a b [] = True"
| "first_then a b (x # xs) = (if x = a then True else if x = b then False else first_then a b xs)"

fun is_Kill :: "call \<Rightarrow> bool" where
  "is_Kill (Kill n) = True"
| "is_Kill k = False"

fun is_wait_or_kill :: "call \<Rightarrow> bool" where
  "is_wait_or_kill (Wait n) = True"
| "is_wait_or_kill (Resume n) = True"
| "is_wait_or_kill (Kill n) = True"
| "is_wait_or_kill (ExitWait n) = True"
| "is_wait_or_kill k = False"

text \<open>
  Two situations to run the driver in: an engine on which no call fails and every
  awaited exit arrives, and an engine that holds one container, with a task in a
  given state or with no task.
\<close>

definition no_faults :: world where
  "no_faults = \<lparr>fails = (\<lambda>k. None), exit_wait = (\<lambda>n. Exited None)\<rparr>"

definition one_container :: "string \<Rightarrow> ProcessStatus option \<Rightarrow> engine" where
  "one_container n t =
     \<lparr>images = [], conts = (\<lambda>m. if m = n then Some t else None), calls = []\<rparr>"

subsection \<open>Translating filters\<close>

text \<open>
  The podman driver, \<^verbatim>\<open>buildFilterString\<close>. The result is a map from the type of a
  filter to the filter strings of that type, in order; \<open>entries\<close> reads it as Go
  does, a missing key as the empty slice.
\<close>

definition entries :: "(string \<Rightarrow> string list option) \<Rightarrow> string \<Rightarrow> string list" where
  "entries filters k = (case filters k of None \<Rightarrow> [] | Some l \<Rightarrow> l)"

text \<open>The end of the body of the loop, from the debug line on.\<close>

definition buildFilterString_append ::
  "GenericFilter \<Rightarrow> string \<Rightarrow> string \<Rightarrow> (string \<Rightarrow> string list option) \<times> log list \<Rightarrow>
   (string \<Rightarrow> string list option) \<times> log list" where
  "buildFilterString_append gF filterType filterStr st =
     (case st of (filters, logs) \<Rightarrow>
        (let logs = logs @ [Log DebugLevel ''produced a filterStr %q from inputs %+v''
                              [AStr filterStr, AFilter gF]];
             filters = (case filters filterType of
                          None \<Rightarrow> filters(filterType \<mapsto> [])
                        | Some l \<Rightarrow> filters)
         in (filters(filterType \<mapsto> entries filters filterType @ [filterStr]), logs)))"

definition buildFilterString_step ::
  "GenericFilter \<Rightarrow> (string \<Rightarrow> string list option) \<times> log list \<Rightarrow>
   (string \<Rightarrow> string list option) \<times> log list" where
  "buildFilterString_step gF st =
     (let filterType = FilterType gF;
          filterOp = Operator gF;
          filterValue = Match gF;
          (filterOp, filterValue) =
            (if filterOp = ''exists'' then (''='', []) else (filterOp, filterValue))
      in if filterType = ''name'' then buildFilterString_append gF filterType filterValue st
         else if filterOp \<noteq> ''='' then
           (fst st,
            snd st @ [Log WarnLevel ''received a filter with unsupported match type: %+v''
                        [AFilter gF]])
         else buildFilterString_append gF filterType (Field gF @ filterOp @ filterValue) st)"

fun buildFilterString_loop ::
  "GenericFilter list \<Rightarrow> (string \<Rightarrow> string list option) \<times> log list \<Rightarrow>
   (string \<Rightarrow> string list option) \<times> log list" where
  "buildFilterString_loop [] st = st"
| "buildFilterString_loop (gF # gFilters) st =
     buildFilterString_loop gFilters (buildFilterString_step gF st)"

definition buildFilterString ::
  "GenericFilter list \<Rightarrow> (string \<Rightarrow> string list option) \<times> log list" where
  "buildFilterString gFilters =
     (case buildFilterString_loop gFilters (Map.empty, []) of
        (filters, logs) \<Rightarrow>
          (filters,
           logs @ [Log DebugLevel
                     ''Method buildFilterString was called with inputs %+v\<newline> and results %+v''
                     [AFilters gFilters, AFilterMap filters]]))"

text \<open>
  The containerd driver, \<^verbatim>\<open>filterStringBuilder\<close>: the loop carries the string built
  so far and the delimiter; the only line logged is a debug line.
\<close>

fun filterStringBuilder_loop :: "GenericFilter list \<Rightarrow> string \<Rightarrow> string \<Rightarrow> string" where
  "filterStringBuilder_loop [] filterstring delim = filterstring"
| "filterStringBuilder_loop (filterEntry # filters) filterstring delim =
     (let (operator, isExistsOperator) =
            (if Operator filterEntry = ''='' then (''=='', False)
             else if Operator filterEntry = ''exists'' then ([], True)
             else (Operator filterEntry, False));
          filterstring =
            (if FilterType filterEntry = ''label'' then
               (let filterstring = filterstring @ ''labels.'' @ Field filterEntry
                in if \<not> isExistsOperator
                   then filterstring @ operator @ Match filterEntry @ delim
                   else filterstring)
             else filterstring)
      in filterStringBuilder_loop filters filterstring '','')"

definition filterStringBuilder :: "GenericFilter list \<Rightarrow> string \<times> log list" where
  "filterStringBuilder filters =
     (let filterstring = filterStringBuilder_loop filters [] []
      in (filterstring, [Log DebugLevel (''Filterstring: '' @ filterstring) []]))"

text \<open>
  What the translations are compared with. For the podman driver: the filters it
  translates (type \<^verbatim>\<open>name\<close>, or operator \<^verbatim>\<open>=\<close> or \<^verbatim>\<open>exists\<close>), the filter string
  of such a filter, and the warning for any other filter. For the containerd
  driver: the text of a filter of type \<^verbatim>\<open>label\<close>, without the delimiter.
\<close>

definition podman_supported :: "GenericFilter \<Rightarrow> bool" where
  "podman_supported g =
     (FilterType g = ''name'' \<or> Operator g = ''='' \<or> Operator g = ''exists'')"

definition podman_term :: "GenericFilter \<Rightarrow> string" where
  "podman_term g =
     (if FilterType g = ''name'' then (if Operator g = ''exists'' then [] else Match g)
      else Field g @ ''='' @ (if Operator g = ''exists'' then [] else Match g))"

definition podman_warning :: "GenericFilter \<Rightarrow> log" where
  "podman_warning g =
     Log WarnLevel ''received a filter with unsupported match type: %+v'' [AFilter g]"

definition containerd_term :: "GenericFilter \<Rightarrow> string" where
  "containerd_term g =
     ''labels.'' @ Field g @
       (if Operator g = ''exists'' then []
        else (if Operator g = ''='' then ''=='' else Operator g) @ Match g)"

definition is_label :: "GenericFilter \<Rightarrow> bool" where
  "is_label g = (FilterType g = ''label'')"

definition with_delims :: "GenericFilter list \<Rightarrow> string list \<Rightarrow> string" where
  "with_delims gs ds = concat (map (\<lambda>(g, d). containerd_term g @ d) (zip gs ds))"

definition delims :: "string list \<Rightarrow> bool" where
  "delims ds = list_all (\<lambda>d. d = [] \<or> d = '','') ds"

subsection \<open>The container specification of the podman driver\<close>

text \<open>
  \<^verbatim>\<open>types.NodeConfig\<close>, with the fields \<^verbatim>\<open>createContainerSpec\<close> reads. A Go map is a
  partial function; \<^verbatim>\<open>Labels\<close> is written to, so the nil map (\<open>None\<close>) is kept apart
  from the empty one. Port bindings map a port such as \<^verbatim>\<open>80/tcp\<close> to pairs of host
  address and host port.
\<close>

record NodeConfig =
  Cmd :: string
  Entrypoint :: string
  Labels :: "(string \<Rightarrow> string option) option"
  LongName :: string
  ShortName :: string
  Env :: "string \<Rightarrow> string option"
  Sysctls :: "string \<Rightarrow> string option"
  Binds :: "string list"
  Image :: string
  User :: string
  Memory :: string
  CPU :: real
  CPUSet :: string
  NetworkMode :: string
  MacAddress :: string
  MgmtIPv4Address :: string
  MgmtIPv6Address :: string
  PortBindings :: "string \<Rightarrow> (string \<times> string) list option"
  PortSet :: "string set"
  ExtraHosts :: "string list"

text \<open>The podman driver keeps the management network in its field \<^verbatim>\<open>mgmt\<close>.\<close>

record PodmanRuntime =
  mgmt :: MgmtNet

text \<open>
  The types of \<^verbatim>\<open>specgen\<close>, \<^verbatim>\<open>specs\<close> and \<^verbatim>\<open>netTypes\<close> that the specification is made
  of, with the fields the function sets; a field whose name is taken already
  carries a prime. Addresses are byte slices.
\<close>

record ContainerBasicConfig =
  Name :: string
  Entrypoint' :: "string list"
  Command :: "string list"
  EnvHost :: bool
  HTTPProxy :: bool
  Env' :: "string \<Rightarrow> string option"
  Terminal :: bool
  Stdin :: bool
  Labels' :: "string \<Rightarrow> string option"
  Hostname :: string
  Sysctl :: "string \<Rightarrow> string option"
  Remove :: bool

record ContainerStorageConfig =
  Image' :: string
  Mounts :: "Mount list"

record ContainerSecurityConfig =
  Privileged :: bool
  User' :: string

record Namespace =
  NSMode :: string
  Value :: string

record ContainerCgroupConfig =
  CgroupNS :: Namespace

record LinuxMemory =
  Limit :: "64 word option"

record LinuxCPU =
  Quota :: "64 word option"
  Period :: "64 word option"
  Cpus :: string

record LinuxResources =
  Memory' :: LinuxMemory
  CPU' :: LinuxCPU

record ContainerResourceConfig =
  ResourceLimits :: LinuxResources

record PortMapping =
  HostIP :: string
  ContainerPort :: "16 word"
  HostPort :: "16 word"
  Range :: "16 word"
  Protocol :: string

record PerNetworkOptions =
  StaticIPs :: "8 word list list"
  Aliases :: "string list"
  StaticMAC :: "8 word list"
  InterfaceName :: string

record ContainerNetworkConfig =
  NetNS :: Namespace
  PortMappings :: "PortMapping list"
  PublishExposedPorts :: bool
  Expose :: "16 word \<Rightarrow> string option"
  Networks :: "string \<Rightarrow> PerNetworkOptions option"
  UseImageHosts :: bool
  HostAdd :: "string list"

record SpecGenerator =
  BasicConfig :: ContainerBasicConfig
  StorageConfig :: ContainerStorageConfig
  SecurityConfig :: ContainerSecurityConfig
  CgroupConfig :: ContainerCgroupConfig
  NetworkConfig :: ContainerNetworkConfig
  ResourceConfig :: ContainerResourceConfig

text \<open>
  What \<^verbatim>\<open>createContainerSpec\<close> calls and this file does not define: the tokenizer
  \<^verbatim>\<open>shlex.Split\<close>, \<^verbatim>\<open>humanize.ParseBytes\<close> (a value and an error, as in Go),
  \<^verbatim>\<open>net.ParseMAC\<close>, \<^verbatim>\<open>net.ParseIP\<close> (\<open>None\<close> for nil), the methods
  \<^verbatim>\<open>convertPortMap\<close> and \<^verbatim>\<open>convertExpose\<close> of the driver, the splitting of a string
  into UTF-8 sequences that \<^verbatim>\<open>strings.SplitN\<close> does for an empty separator, and
  the conversion of a \<^verbatim>\<open>float64\<close> to \<^verbatim>\<open>int64\<close>. They are parameters.
\<close>

record libs =
  shlex_Split :: "string \<Rightarrow> error + string list"
  ParseBytes :: "string \<Rightarrow> 64 word \<times> error option"
  ParseMAC :: "string \<Rightarrow> error + 8 word list"
  ParseIP :: "string \<Rightarrow> 8 word list option"
  convertPortMap :: "(string \<Rightarrow> (string \<times> string) list option) \<Rightarrow> error + PortMapping list"
  convertExpose :: "string set \<Rightarrow> error + (16 word \<Rightarrow> string option)"
  utf8_explode :: "string \<Rightarrow> nat \<Rightarrow> string list"
  int64_of_float :: "real \<Rightarrow> 64 word"

text \<open>
  \<^verbatim>\<open>strings.SplitN(s, sep, n)\<close> for a separator that is a string and \<open>n \<ge> 0\<close>: the
  cut at the first occurrence of a non-empty separator, then \<^verbatim>\<open>genSplit\<close>.
\<close>

fun cut_string :: "string \<Rightarrow> string \<Rightarrow> (string \<times> string) option" where
  "cut_string sep [] = None"
| "cut_string sep (x # xs) =
     (if take (length sep) (x # xs) = sep then Some ([], drop (length sep) (x # xs))
      else (case cut_string sep xs of None \<Rightarrow> None | Some (a, b) \<Rightarrow> Some (x # a, b)))"

fun SplitN_string :: "libs \<Rightarrow> string \<Rightarrow> string \<Rightarrow> nat \<Rightarrow> string list" where
  "SplitN_string L s sep 0 = []"
| "SplitN_string L s sep (Suc n) =
     (if sep = [] then utf8_explode L s (Suc n)
      else if n = 0 then [s]
      else (case cut_string sep s of
              None \<Rightarrow> [s]
            | Some (a, b) \<Rightarrow> a # SplitN_string L b sep n))"

text \<open>
  \<^verbatim>\<open>createContainerSpec\<close>, section by section. The mounts: an error of
  \<^verbatim>\<open>convertMounts\<close> is logged and the mounts are set to nil.
\<close>

definition createContainerSpec_mounts :: "string list \<Rightarrow> Mount list \<times> log list" where
  "createContainerSpec_mounts binds =
     (case convertMounts binds of
        Inl err \<Rightarrow>
          ([], [Log ErrorLevel ''Cannot convert mounts %v: %v'' [AStrs binds, AErr err]])
      | Inr mounts \<Rightarrow> (mounts, []))"

text \<open>
  The resource limits: a memory limit that does not parse is logged and the value
  returned with the error is kept as the limit.
\<close>

definition createContainerSpec_limits :: "libs \<Rightarrow> NodeConfig \<Rightarrow> LinuxResources \<times> log list" where
  "createContainerSpec_limits L cfg =
     (let (lMem, logs) =
            (if Memory cfg \<noteq> [] then
               (case ParseBytes L (Memory cfg) of
                  (mem, err) \<Rightarrow>
                    (\<lparr>Limit = Some mem\<rparr>,
                     (if err \<noteq> None
                      then [Log WarnLevel ''Unable to parse memory limit %q for node %q''
                              [AStr (Memory cfg), AStr (LongName cfg)]]
                      else [])))
             else (\<lparr>Limit = None\<rparr>, []));
          lCPU = \<lparr>Quota = None, Period = None, Cpus = []\<rparr>;
          lCPU = (if CPU cfg \<noteq> 0
                  then lCPU\<lparr>Quota := Some (int64_of_float L (CPU cfg * 100000)),
                            Period := Some 100000\<rparr>
                  else lCPU);
          lCPU = (if CPUSet cfg \<noteq> [] then lCPU\<lparr>Cpus := CPUSet cfg\<rparr> else lCPU)
      in (\<lparr>Memory' = lMem, CPU' = lCPU\<rparr>, logs))"

text \<open>The network section: the switch on the network mode.\<close>

definition no_network :: ContainerNetworkConfig where
  "no_network =
     \<lparr>NetNS = \<lparr>NSMode = [], Value = []\<rparr>, PortMappings = [], PublishExposedPorts = False,
      Expose = Map.empty, Networks = Map.empty, UseImageHosts = False, HostAdd = []\<rparr>"

definition createContainerSpec_net ::
  "libs \<Rightarrow> PodmanRuntime \<Rightarrow> NodeConfig \<Rightarrow> error + ContainerNetworkConfig" where
  "createContainerSpec_net L r cfg =
     (let netMode = SplitN (NetworkMode cfg) CHR '':'' 2
      in case index netMode 0 of
           Inl e \<Rightarrow> Inl e
         | Inr mode \<Rightarrow>
             if mode = ''container'' then
               (if length netMode \<noteq> 2 then Inl (ErrContainerNetMode (ShortName cfg) netMode)
                else
                  (case index netMode 1 of
                     Inl e \<Rightarrow> Inl e
                   | Inr ref \<Rightarrow>
                       if ref = [] then Inl (ErrContainerNetMode (ShortName cfg) netMode)
                       else
                         (case index (SplitN_string L (LongName cfg) (ShortName cfg) 2) 0 of
                            Inl e \<Rightarrow> Inl e
                          | Inr prefix \<Rightarrow>
                              Inr (no_network
                                     \<lparr>NetNS := \<lparr>NSMode = ''container'',
                                                Value = prefix @ ref\<rparr>\<rparr>))))
             else if mode = ''host'' then
               Inr (no_network\<lparr>NetNS := \<lparr>NSMode = ''host'', Value = []\<rparr>,
                               UseImageHosts := False, HostAdd := ExtraHosts cfg\<rparr>)
             else if mode = ''bridge'' \<or> mode = [] then
               (let netName = Network (mgmt r)
                in case (case ParseMAC L (MacAddress cfg) of
                           Inl err \<Rightarrow> (if MacAddress cfg \<noteq> [] then Inl err else Inr [])
                         | Inr mac \<Rightarrow> Inr mac) of
                     Inl err \<Rightarrow> Inl err
                   | Inr hwAddr \<Rightarrow>
                       (let staticIPs = [];
                            staticIPs = (case ParseIP L (MgmtIPv4Address cfg) of
                                           Some mgmtv4Addr \<Rightarrow> staticIPs @ [mgmtv4Addr]
                                         | None \<Rightarrow> staticIPs);
                            staticIPs = (case ParseIP L (MgmtIPv6Address cfg) of
                                           Some mgmtv6Addr \<Rightarrow> staticIPs @ [mgmtv6Addr]
                                         | None \<Rightarrow> staticIPs);
                            nets = [netName \<mapsto>
                                      \<lparr>StaticIPs = staticIPs, Aliases = [],
                                       StaticMAC = hwAddr, InterfaceName = []\<rparr>]
                        in case convertPortMap L (PortBindings cfg) of
                             Inl err \<Rightarrow> Inl err
                           | Inr portmap \<Rightarrow>
                               (case convertExpose L (PortSet cfg) of
                                  Inl err \<Rightarrow> Inl err
                                | Inr expose \<Rightarrow>
                                    Inr \<lparr>NetNS = \<lparr>NSMode = ''bridge'', Value = []\<rparr>,
                                         PortMappings = portmap,
                                         PublishExposedPorts = False,
                                         Expose = expose,
                                         Networks = nets,
                                         UseImageHosts = False,
                                         HostAdd = ExtraHosts cfg\<rparr>)))
             else Inl (ErrNetModeUnsupported netMode))"

text \<open>
  The function. It returns the specification or the error, the node configuration
  (the label of the management network is written into the map of the caller) and
  the lines it logged.
\<close>

definition createContainerSpec ::
  "libs \<Rightarrow> PodmanRuntime \<Rightarrow> NodeConfig \<Rightarrow> (error + SpecGenerator) \<times> NodeConfig \<times> log list" where
  "createContainerSpec L r cfg =
     (case shlex_Split L (Cmd cfg) of
        Inl err \<Rightarrow> (Inl err, cfg, [])
      | Inr cmd \<Rightarrow>
          (case shlex_Split L (Entrypoint cfg) of
             Inl err \<Rightarrow> (Inl err, cfg, [])
           | Inr entrypoint \<Rightarrow>
               (case Labels cfg of
                  None \<Rightarrow> (Inl PanicNilMap, cfg, [])
                | Some labels \<Rightarrow>
                    (let labels = labels(''clab-net-mgmt'' \<mapsto> Network (mgmt r));
                         cfg = cfg\<lparr>Labels := Some labels\<rparr>;
                         specBasicConfig =
                           \<lparr>Name = LongName cfg, Entrypoint' = entrypoint, Command = cmd,
                            EnvHost = False, HTTPProxy = False, Env' = Env cfg,
                            Terminal = False, Stdin = False, Labels' = labels,
                            Hostname = ShortName cfg, Sysctl = Sysctls cfg, Remove = False\<rparr>;
                         (mounts, logs) = createContainerSpec_mounts (Binds cfg);
                         specStorageConfig = \<lparr>Image' = Image cfg, Mounts = mounts\<rparr>;
                         specSecurityConfig = \<lparr>Privileged = True, User' = User cfg\<rparr>;
                         specCgroupConfig = \<lparr>CgroupNS = \<lparr>NSMode = [], Value = []\<rparr>\<rparr>;
                         (resLimits, logs') = createContainerSpec_limits L cfg;
                         logs = logs @ logs';
                         specResConfig = \<lparr>ResourceLimits = resLimits\<rparr>
                     in case createContainerSpec_net L r cfg of
                          Inl err \<Rightarrow> (Inl err, cfg, logs)
                        | Inr specNetConfig \<Rightarrow>
                            (Inr \<lparr>BasicConfig = specBasicConfig,
                                  StorageConfig = specStorageConfig,
                                  SecurityConfig = specSecurityConfig,
                                  CgroupConfig = specCgroupConfig,
                                  NetworkConfig = specNetConfig,
                                  ResourceConfig = specResConfig\<rparr>,
                             cfg, logs)))))"

text \<open>
  A node to run \<^verbatim>\<open>createContainerSpec\<close> on: no command, host networking, no limits,
  given binds. Of the libraries the run calls only the tokenizer, on the empty
  string, which has no token; \<open>few_libs\<close> answers every other call with an error.
\<close>

definition host_node :: "string list \<Rightarrow> NodeConfig" where
  "host_node binds =
     \<lparr>Cmd = [], Entrypoint = [], Labels = Some Map.empty, LongName = ''clab-lab-n1'',
      ShortName = ''n1'', Env = Map.empty, Sysctls = Map.empty, Binds = binds,
      Image = ''alpine:3'', User = [], Memory = [], CPU = 0, CPUSet = [],
      NetworkMode = ''host'', MacAddress = [], MgmtIPv4Address = [],
      MgmtIPv6Address = [], PortBindings = Map.empty, PortSet = {}, ExtraHosts = []\<rparr>"

definition few_libs :: libs where
  "few_libs =
     \<lparr>shlex_Split = (\<lambda>s. if s = [] then Inr [] else Inl (ErrLib ''shlex'')),
      ParseBytes = (\<lambda>s. (0, Some (ErrLib ''humanize''))),
      ParseMAC = (\<lambda>s. Inl (ErrLib ''net'')),
      ParseIP = (\<lambda>s. None),
      convertPortMap = (\<lambda>p. Inl (ErrLib ''ports'')),
      convertExpose = (\<lambda>p. Inl (ErrLib ''ports'')),
      utf8_explode = (\<lambda>s n. []),
      int64_of_float = (\<lambda>x. 0)\<rparr>"

definition clab_runtime :: PodmanRuntime where
  "clab_runtime =
     \<lparr>mgmt = \<lparr>Network = ''clab'', Bridge = [], IPv4Subnet = ''172.20.20.0/24'',
              IPv4Gw = [], IPv6Subnet = [], IPv6Gw = [], MTU = ''1500''\<rparr>\<rparr>"

text \<open>The mounts of a result, when it is a specification.\<close>

definition mounts_of :: "error + SpecGenerator \<Rightarrow> error + Mount list" where
  "mounts_of res = (case res of Inl err \<Rightarrow> Inl err | Inr sg \<Rightarrow> Inr (Mounts (StorageConfig sg)))"

section \<open>Properties\<close>

subsection \<open>Bind mounts\<close>

lemma cut_append: "c \<notin> set a \<Longrightarrow> cut c (a @ c # b) = Some (a, b)"
  by (induction a) auto

lemma cut_None: "c \<notin> set s \<Longrightarrow> cut c s = None"
  by (induction s) auto

text \<open>
  The podman translator on one bind: \<open>src:dst\<close> gives a mount without options,
  \<open>src:dst:opts\<close> gives the options split at the commas, and a bind without a colon
  is the invalid-bind error carrying the bind.
\<close>

lemma convertMount_two:
  "CHR '':'' \<notin> set src \<Longrightarrow> CHR '':'' \<notin> set dst \<Longrightarrow>
   convertMount (src @ CHR '':'' # dst) =
     Inr \<lparr>Destination = dst, Type = ''bind'', Source = src, Options = []\<rparr>"
  by (simp add: convertMount_def numeral_3_eq_3 cut_append cut_None index_def)

lemma convertMount_three:
  "CHR '':'' \<notin> set src \<Longrightarrow> CHR '':'' \<notin> set dst \<Longrightarrow>
   convertMount (src @ CHR '':'' # dst @ CHR '':'' # opts) =
     Inr \<lparr>Destination = dst, Type = ''bind'', Source = src,
          Options = Split opts CHR '',''\<rparr>"
  by (simp add: convertMount_def numeral_3_eq_3 cut_append cut_None index_def)

lemma convertMount_none:
  "CHR '':'' \<notin> set mnt \<Longrightarrow> convertMount mnt = Inl (ErrInvalidBind mnt)"
  by (simp add: convertMount_def numeral_3_eq_3 cut_None)

lemma convertMounts_single: "convertMounts [mnt] = map_sum id (\<lambda>m. [m]) (convertMount mnt)"
  by (simp add: convertMounts_def split: sum.splits)

text \<open>
  Claim C1. The mount translator turns \<open>src:dst\<close> and \<open>src:dst:opt1,opt2\<close> into one
  mount with that source and destination, parses the options when there is a third
  segment, and answers a bind without a colon with the invalid-bind error. The
  podman translator does so (\<open>convertMount_two\<close>, \<open>convertMount_three\<close>,
  \<open>convertMount_none\<close>). The loop of the containerd driver does not: for the bind
  \<^verbatim>\<open>/a:/b:ro\<close> the third segment is left out of the options, since the test is on the
  length of the string; a bind of three bytes such as \<^verbatim>\<open>a:b\<close> reads \<^verbatim>\<open>s[2]\<close> of
  a slice of two; and a bind without a colon reads \<^verbatim>\<open>s[1]\<close> of a slice of one, a
  panic in place of the named error. The podman translator is shown on the same
  binds.
\<close>

theorem CreateContainer_mounts_third_segment:
  "CreateContainer_mounts [''/a:/b:ro''] =
     Inr [\<lparr>Destination = ''/b'', Type = [], Source = ''/a'',
           Options = [''rbind'', ''rprivate'']\<rparr>]
   \<and> CreateContainer_mounts [''a:b''] = Inl (PanicIndex 2 2)
   \<and> CreateContainer_mounts [''nocolon''] = Inl (PanicIndex 1 1)
   \<and> convertMounts [''/a:/b:ro''] =
     Inr [\<lparr>Destination = ''/b'', Type = ''bind'', Source = ''/a'', Options = [''ro'']\<rparr>]
   \<and> convertMounts [''nocolon''] = Inl (ErrInvalidBind ''nocolon'')"
  by (simp add: CreateContainer_mount_def convertMounts_def convertMount_def Split_def
      index_def numeral_3_eq_3)

subsection \<open>Pulling an image\<close>

text \<open>
  When does \<^verbatim>\<open>PullImageIfRequired\<close> issue the pull: exactly when the listing succeeds
  and the local store holds no image at all.
\<close>

lemma PullImageIfRequired_pulls_iff:
  "Pull (canon i) \<in> set (calls (snd (PullImageIfRequired w canon e i))) \<longleftrightarrow>
     Pull (canon i) \<in> set (calls e) \<or> (fails w ListImages = None \<and> images e = [])"
  by (auto simp: PullImageIfRequired_def issue_def Let_def split: option.splits)

lemma PullImageIfRequired_no_pull_when_present:
  "canon i \<in> set (images e) \<Longrightarrow>
   calls (snd (PullImageIfRequired w canon e i)) = calls e @ [ListImages]"
  by (auto simp: PullImageIfRequired_def issue_def Let_def split: option.splits)

text \<open>
  Claim C2. \<^verbatim>\<open>PullImageIfRequired\<close> looks for the requested image and pulls it when it
  is absent. The code lists every image of the store and skips the pull when the
  list is not empty: with \<^verbatim>\<open>alpine\<close> in the store and \<^verbatim>\<open>busybox\<close> requested, it
  returns \<^verbatim>\<open>nil\<close>, the only call issued is the listing, and \<^verbatim>\<open>busybox\<close> is still
  absent.
\<close>

theorem PullImageIfRequired_other_image_present:
  "fst (PullImageIfRequired \<lparr>fails = (\<lambda>k. None), exit_wait = (\<lambda>n. Never)\<rparr> (\<lambda>s. s)
          \<lparr>images = [''docker.io/library/alpine:latest''], conts = (\<lambda>n. None), calls = []\<rparr>
          ''docker.io/library/busybox:latest'') = None
   \<and> calls (snd (PullImageIfRequired \<lparr>fails = (\<lambda>k. None), exit_wait = (\<lambda>n. Never)\<rparr> (\<lambda>s. s)
          \<lparr>images = [''docker.io/library/alpine:latest''], conts = (\<lambda>n. None), calls = []\<rparr>
          ''docker.io/library/busybox:latest'')) = [ListImages]
   \<and> images (snd (PullImageIfRequired \<lparr>fails = (\<lambda>k. None), exit_wait = (\<lambda>n. Never)\<rparr> (\<lambda>s. s)
          \<lparr>images = [''docker.io/library/alpine:latest''], conts = (\<lambda>n. None), calls = []\<rparr>
          ''docker.io/library/busybox:latest'')) = [''docker.io/library/alpine:latest'']"
  by (simp add: PullImageIfRequired_def issue_def)

subsection \<open>The management network\<close>

lemma SetMgmtNet_keeps_bridge: "Bridge n \<noteq> [] \<Longrightarrow> Mgmt (SetMgmtNet c n) = n"
  by (simp add: SetMgmtNet_def)

lemma SetMgmtNet_twice: "SetMgmtNet (SetMgmtNet c n) n = SetMgmtNet c n"
  by (simp add: SetMgmtNet_def Let_def)

lemma SetMgmtNet_recorded_again:
  "SetMgmtNet (SetMgmtNet c n) (Mgmt (SetMgmtNet c n)) = SetMgmtNet c n"
  by (simp add: SetMgmtNet_def Let_def)

lemma SetMgmtNet_derived:
  "Bridge n = [] \<Longrightarrow>
   Bridge (Mgmt (SetMgmtNet c n)) = (if Network n = [] then ''br-'' else ''br-clab'')"
  by (simp add: SetMgmtNet_def Let_def)

text \<open>
  Claim C3. Without a bridge name, \<^verbatim>\<open>SetMgmtNet\<close> records the bridge name \<^verbatim>\<open>br-\<close>
  followed by the name of the network. The code takes the name of the network only
  when that name is empty: for the network \<^verbatim>\<open>mynet\<close> the recorded bridge is
  \<^verbatim>\<open>br-clab\<close>, not \<^verbatim>\<open>br-mynet\<close>. (The podman driver, in \<^verbatim>\<open>netOpts\<close>, takes the name
  of the network as it is.) A given bridge name is kept (\<open>SetMgmtNet_keeps_bridge\<close>)
  and the operation is idempotent (\<open>SetMgmtNet_twice\<close>).
\<close>

theorem SetMgmtNet_named_network:
  "Bridge (Mgmt (SetMgmtNet
       \<lparr>Mgmt = \<lparr>Network = [], Bridge = [], IPv4Subnet = [], IPv4Gw = [],
                IPv6Subnet = [], IPv6Gw = [], MTU = []\<rparr>\<rparr>
       \<lparr>Network = ''mynet'', Bridge = [], IPv4Subnet = ''172.20.20.0/24'', IPv4Gw = [],
        IPv6Subnet = [], IPv6Gw = [], MTU = ''1500''\<rparr>)) = ''br-clab''
   \<and> Bridge (netOpts_bridge
       \<lparr>Network = ''mynet'', Bridge = [], IPv4Subnet = ''172.20.20.0/24'', IPv4Gw = [],
        IPv6Subnet = [], IPv6Gw = [], MTU = ''1500''\<rparr>) = ''mynet''"
  by (simp add: SetMgmtNet_def netOpts_bridge_def)

subsection \<open>Management addresses from labels\<close>

lemma Atoi_24: "Atoi ''24'' = Inr 24"
  by (simp add: Atoi_def digit_def)

text \<open>
  Claim C4, as the claim states it: a result with \<open>Set = False\<close> has no address. The
  labels \<^verbatim>\<open>{"clab.ipv4.addr": "10.0.0.2"}\<close>, with no netmask label, give
  \<open>Set = False\<close> and the address \<^verbatim>\<open>10.0.0.2\<close>.
\<close>

theorem extractIPInfoFromLabels_unset_with_address:
  "extractIPInfoFromLabels [''clab.ipv4.addr'' \<mapsto> ''10.0.0.2''] =
     Inr \<lparr>Set = False, IPv4addr = ''10.0.0.2'', IPv4pLen = 0, IPv6addr = [],
          IPv6pLen = 0, IPv4Gw = []\<rparr>"
  by (simp add: extractIPInfoFromLabels_def netmask_label_def lookup_def)

text \<open>
  Claim C4, amended. \<open>Set\<close> says whether one of the two netmask labels exists;
  a result with \<open>Set = False\<close> has both prefix lengths zero; the two addresses are
  the values of the address labels whatever \<open>Set\<close> is (empty when the label is
  missing); and the labels
  \<^verbatim>\<open>{"clab.ipv4.addr": "10.0.0.2", "clab.ipv4.netmask": "24"}\<close> give \<open>Set = True\<close>,
  the address \<^verbatim>\<open>10.0.0.2\<close> and the prefix length 24.
\<close>

theorem extractIPInfoFromLabels_Set:
  "(extractIPInfoFromLabels labels = Inr r \<longrightarrow>
      (Set r \<longleftrightarrow>
         labels ''clab.ipv4.netmask'' \<noteq> None \<or> labels ''clab.ipv6.netmask'' \<noteq> None)
      \<and> (\<not> Set r \<longrightarrow> IPv4pLen r = 0 \<and> IPv6pLen r = 0)
      \<and> IPv4addr r = lookup labels ''clab.ipv4.addr''
      \<and> IPv6addr r = lookup labels ''clab.ipv6.addr'')
   \<and> extractIPInfoFromLabels
        [''clab.ipv4.addr'' \<mapsto> ''10.0.0.2'', ''clab.ipv4.netmask'' \<mapsto> ''24''] =
      Inr \<lparr>Set = True, IPv4addr = ''10.0.0.2'', IPv4pLen = 24, IPv6addr = [],
           IPv6pLen = 0, IPv4Gw = []\<rparr>"
proof (intro conjI impI)
  assume "extractIPInfoFromLabels labels = Inr r"
  then have r: "(Set r \<longleftrightarrow>
         labels ''clab.ipv4.netmask'' \<noteq> None \<or> labels ''clab.ipv6.netmask'' \<noteq> None)
      \<and> (\<not> Set r \<longrightarrow> IPv4pLen r = 0 \<and> IPv6pLen r = 0)
      \<and> IPv4addr r = lookup labels ''clab.ipv4.addr''
      \<and> IPv6addr r = lookup labels ''clab.ipv6.addr''"
    by (auto simp: extractIPInfoFromLabels_def netmask_label_def
        split: option.splits sum.splits)
  from r show "Set r \<longleftrightarrow>
         labels ''clab.ipv4.netmask'' \<noteq> None \<or> labels ''clab.ipv6.netmask'' \<noteq> None"
    by blast
  from r show "IPv4addr r = lookup labels ''clab.ipv4.addr''" by blast
  from r show "IPv6addr r = lookup labels ''clab.ipv6.addr''" by blast
  assume "\<not> Set r"
  with r show "IPv4pLen r = 0" by blast
  from r \<open>\<not> Set r\<close> show "IPv6pLen r = 0" by blast
next
  show "extractIPInfoFromLabels
        [''clab.ipv4.addr'' \<mapsto> ''10.0.0.2'', ''clab.ipv4.netmask'' \<mapsto> ''24''] =
      Inr \<lparr>Set = True, IPv4addr = ''10.0.0.2'', IPv4pLen = 24, IPv6addr = [],
           IPv6pLen = 0, IPv4Gw = []\<rparr>"
    by (simp add: extractIPInfoFromLabels_def netmask_label_def lookup_def Atoi_def digit_def)
qed

theorem extractIPInfoFromLabels_Set_witness:
  "extractIPInfoFromLabels [''clab.ipv4.addr'' \<mapsto> ''10.0.0.2''] =
     Inr \<lparr>Set = False, IPv4addr = ''10.0.0.2'', IPv4pLen = 0, IPv6addr = [],
          IPv6pLen = 0, IPv4Gw = []\<rparr>
   \<and> \<not> Set \<lparr>Set = False, IPv4addr = ''10.0.0.2'', IPv4pLen = 0, IPv6addr = [],
          IPv6pLen = 0, IPv4Gw = []\<rparr>
   \<and> IPv4pLen \<lparr>Set = False, IPv4addr = ''10.0.0.2'', IPv4pLen = 0, IPv6addr = [],
          IPv6pLen = 0, IPv4Gw = []\<rparr> = 0
   \<and> IPv4addr \<lparr>Set = False, IPv4addr = ''10.0.0.2'', IPv4pLen = 0, IPv6addr = [],
          IPv6pLen = 0, IPv4Gw = []\<rparr>
       = lookup [''clab.ipv4.addr'' \<mapsto> ''10.0.0.2''] ''clab.ipv4.addr''"
proof -
  have h: "extractIPInfoFromLabels [''clab.ipv4.addr'' \<mapsto> ''10.0.0.2''] =
     Inr \<lparr>Set = False, IPv4addr = ''10.0.0.2'', IPv4pLen = 0, IPv6addr = [],
          IPv6pLen = 0, IPv4Gw = []\<rparr>"
    by (simp add: extractIPInfoFromLabels_def netmask_label_def lookup_def)
  show ?thesis
    using h extractIPInfoFromLabels_Set
      [of "[''clab.ipv4.addr'' \<mapsto> ''10.0.0.2'']"
          "\<lparr>Set = False, IPv4addr = ''10.0.0.2'', IPv4pLen = 0, IPv6addr = [],
            IPv6pLen = 0, IPv4Gw = []\<rparr>"]
    by simp
qed

subsection \<open>Stopping a container\<close>

lemmas task_defs = task_Status_def task_Wait_def task_Resume_def task_Kill_def
  task_Delete_def waitContainerStop_def StopContainer_delete_def

lemmas run_defs = getContainerTask_def no_faults_def one_container_def issue_def issued_def

lemma getContainerTask_Inr:
  "getContainerTask w e n = (Inr t, e1) \<Longrightarrow>
     t = n \<and> calls e1 = calls e @ [LoadContainer n, Task n] \<and> conts e1 = conts e"
  by (auto simp: getContainerTask_def issue_def Let_def split: option.splits)

lemma getContainerTask_Inl:
  "getContainerTask w e n = (Inl err, e1) \<Longrightarrow>
     conts e1 = conts e \<and> filter is_Kill (issued e e1) = []"
  by (auto simp: getContainerTask_def issue_def issued_def Let_def split: option.splits)

lemma getContainerTask_again:
  "getContainerTask w e n = (Inl err, e1) \<Longrightarrow> conts e' = conts e \<Longrightarrow>
     \<exists>err' e2. getContainerTask w e' n = (Inl err', e2)"
  by (auto simp: getContainerTask_def issue_def Let_def split: option.splits)

lemma task_Status_Inr:
  "task_Status w e1 t = (Inr st, e2) \<Longrightarrow> e2 = issue (Status t) e1"
  by (auto simp: task_Status_def Let_def split: option.splits)

lemma StopContainer_no_task:
  "getContainerTask w e n = (Inl err, e1) \<Longrightarrow>
   StopContainer w e n =
     (Returns None, e1, [Log DebugLevel ''no task found for container %s'' [AStr n]])"
  by (simp add: StopContainer_def)

text \<open>
  Claim C6. When \<^verbatim>\<open>StopContainer\<close> observes the task paused or pausing, no kill is
  issued before a resume has been issued: in the calls of the run, no \<^verbatim>\<open>Kill\<close> stands
  before the first \<^verbatim>\<open>Resume\<close>. The resume is attempted and the kill delivered as
  soon as the registration for the exit succeeds: the run then starts with the
  look-up, \<^verbatim>\<open>Status\<close>, \<^verbatim>\<open>Wait\<close>, \<^verbatim>\<open>Resume\<close>, \<^verbatim>\<open>Kill\<close>, in this order; when the
  registration fails, the run ends there with that error and issues neither. When
  \<^verbatim>\<open>StopContainer\<close> observes the task created or stopped, the run issues no \<^verbatim>\<open>Wait\<close>,
  no \<^verbatim>\<open>Resume\<close>, no \<^verbatim>\<open>Kill\<close> and no wait for the exit: after the look-up and
  \<^verbatim>\<open>Status\<close> its only call is \<^verbatim>\<open>Delete\<close>.
\<close>

theorem StopContainer_resume_before_kill:
  assumes "observed w e n = Some st"
  shows "(st = Paused \<or> st = Pausing \<longrightarrow>
           first_then (Resume n) (Kill n) (issued e (fst (snd (StopContainer w e n))))
           \<and> (fails w (Wait n) = None \<longrightarrow>
                take 6 (issued e (fst (snd (StopContainer w e n)))) =
                  [LoadContainer n, Task n, Status n, Wait n, Resume n, Kill n]
                \<and> Resume n \<in> set (issued e (fst (snd (StopContainer w e n))))
                \<and> Kill n \<in> set (issued e (fst (snd (StopContainer w e n)))))
           \<and> (fails w (Wait n) \<noteq> None \<longrightarrow>
                issued e (fst (snd (StopContainer w e n))) =
                  [LoadContainer n, Task n, Status n, Wait n]
                \<and> fst (StopContainer w e n) = Returns (fails w (Wait n))))
       \<and> (st = Created \<or> st = Stopped \<longrightarrow>
           filter is_wait_or_kill (issued e (fst (snd (StopContainer w e n)))) = []
           \<and> issued e (fst (snd (StopContainer w e n))) =
                [LoadContainer n, Task n, Status n, Delete n])"
proof -
  obtain r e1 where g: "getContainerTask w e n = (r, e1)"
    by (cases "getContainerTask w e n")
  with assms obtain t where r: "r = Inr t"
    by (cases r) (auto simp: observed_def)
  obtain s e2 where s: "task_Status w e1 t = (s, e2)"
    by (cases "task_Status w e1 t")
  with assms g r have s': "s = Inr st"
    by (cases s) (auto simp: observed_def)
  from g r have t: "t = n" and c1: "calls e1 = calls e @ [LoadContainer n, Task n]"
    using getContainerTask_Inr by blast+
  from s s' have e2: "e2 = issue (Status t) e1"
    using task_Status_Inr by blast
  show ?thesis
    using g r s s' t c1 e2
    by (cases st)
       (auto simp: StopContainer_def task_defs issued_def issue_def Let_def
             split: option.splits wait_outcome.splits)
qed

theorem StopContainer_resume_before_kill_witness:
  "observed no_faults (one_container ''c1'' (Some Paused)) ''c1'' = Some Paused
   \<and> fails no_faults (Wait ''c1'') = None
   \<and> issued (one_container ''c1'' (Some Paused))
          (fst (snd (StopContainer no_faults (one_container ''c1'' (Some Paused)) ''c1''))) =
       [LoadContainer ''c1'', Task ''c1'', Status ''c1'', Wait ''c1'', Resume ''c1'',
        Kill ''c1'', ExitWait ''c1'', Delete ''c1'']
   \<and> first_then (Resume ''c1'') (Kill ''c1'')
       (issued (one_container ''c1'' (Some Paused))
          (fst (snd (StopContainer no_faults (one_container ''c1'' (Some Paused)) ''c1''))))
   \<and> observed no_faults (one_container ''c1'' (Some Created)) ''c1'' = Some Created
   \<and> issued (one_container ''c1'' (Some Created))
          (fst (snd (StopContainer no_faults (one_container ''c1'' (Some Created)) ''c1''))) =
       [LoadContainer ''c1'', Task ''c1'', Status ''c1'', Delete ''c1'']"
proof -
  have p: "observed no_faults (one_container ''c1'' (Some Paused)) ''c1'' = Some Paused"
    by (simp add: observed_def task_Status_def run_defs)
  have c: "observed no_faults (one_container ''c1'' (Some Created)) ''c1'' = Some Created"
    by (simp add: observed_def task_Status_def run_defs)
  have f: "fails no_faults (Wait ''c1'') = None"
    by (simp add: no_faults_def)
  have i: "issued (one_container ''c1'' (Some Paused))
          (fst (snd (StopContainer no_faults (one_container ''c1'' (Some Paused)) ''c1''))) =
       [LoadContainer ''c1'', Task ''c1'', Status ''c1'', Wait ''c1'', Resume ''c1'',
        Kill ''c1'', ExitWait ''c1'', Delete ''c1'']"
    by (simp add: StopContainer_def task_defs run_defs)
  show ?thesis
    using p c f i StopContainer_resume_before_kill [OF p]
      StopContainer_resume_before_kill [OF c]
    by simp
qed

text \<open>
  Claim C7. When the look-up of the task fails (no container, no task, or a failing
  call), \<^verbatim>\<open>StopContainer\<close> returns \<^verbatim>\<open>nil\<close>, changes nothing in the engine and issues
  no kill; a second call right after it does the same.
\<close>

theorem StopContainer_no_task_twice:
  assumes "fst (getContainerTask w e n) = Inl err"
  shows "fst (StopContainer w e n) = Returns None
       \<and> conts (fst (snd (StopContainer w e n))) = conts e
       \<and> filter is_Kill (issued e (fst (snd (StopContainer w e n)))) = []
       \<and> fst (StopContainer w (fst (snd (StopContainer w e n))) n) = Returns None
       \<and> conts (fst (snd (StopContainer w (fst (snd (StopContainer w e n))) n))) = conts e
       \<and> filter is_Kill (issued (fst (snd (StopContainer w e n)))
            (fst (snd (StopContainer w (fst (snd (StopContainer w e n))) n)))) = []"
proof -
  obtain e1 where g: "getContainerTask w e n = (Inl err, e1)"
    using assms by (cases "getContainerTask w e n") auto
  then have s1: "StopContainer w e n =
     (Returns None, e1, [Log DebugLevel ''no task found for container %s'' [AStr n]])"
    by (rule StopContainer_no_task)
  from g have c1: "conts e1 = conts e" and k1: "filter is_Kill (issued e e1) = []"
    using getContainerTask_Inl by blast+
  from g c1 obtain err' e2 where g2: "getContainerTask w e1 n = (Inl err', e2)"
    using getContainerTask_again by blast
  then have s2: "StopContainer w e1 n =
     (Returns None, e2, [Log DebugLevel ''no task found for container %s'' [AStr n]])"
    by (rule StopContainer_no_task)
  from g2 have c2: "conts e2 = conts e1" and k2: "filter is_Kill (issued e1 e2) = []"
    using getContainerTask_Inl by blast+
  show ?thesis
    using s1 s2 c1 c2 k1 k2 by simp
qed

theorem StopContainer_no_task_twice_witness:
  "fst (getContainerTask no_faults (one_container ''c1'' None) ''c1'') = Inl (ErrNotFound ''c1'')
   \<and> fst (StopContainer no_faults (one_container ''c1'' None) ''c1'') = Returns None
   \<and> fst (StopContainer no_faults
            (fst (snd (StopContainer no_faults (one_container ''c1'' None) ''c1''))) ''c1'')
       = Returns None
   \<and> filter is_Kill
       (issued (fst (snd (StopContainer no_faults (one_container ''c1'' None) ''c1'')))
          (fst (snd (StopContainer no_faults
             (fst (snd (StopContainer no_faults (one_container ''c1'' None) ''c1''))) ''c1''))))
       = []"
proof -
  have h: "fst (getContainerTask no_faults (one_container ''c1'' None) ''c1'')
             = Inl (ErrNotFound ''c1'')"
    by (simp add: run_defs)
  show ?thesis
    using h StopContainer_no_task_twice [OF h] by simp
qed

lemma getContainerTask_Inl_Delete:
  "getContainerTask w e n = (Inl err, e1) \<Longrightarrow> Delete n \<notin> set (issued e e1)"
  by (auto simp: getContainerTask_def issue_def issued_def Let_def split: option.splits)

text \<open>
  Claim C10, as the claim states it: when the task of the container exists, a
  successful \<^verbatim>\<open>StopContainer\<close> has deleted it. \<^verbatim>\<open>StopContainer\<close> returns \<^verbatim>\<open>nil\<close> on
  any error of the look-up, not only when the engine has no task: with a running
  task and a failing \<^verbatim>\<open>LoadContainer\<close> call, the run returns \<^verbatim>\<open>nil\<close>, its only call
  is the look-up, and the task is still there, running.
\<close>

theorem StopContainer_lookup_error_keeps_task:
  "fst (StopContainer
         \<lparr>fails = (\<lambda>k. if k = LoadContainer ''c1'' then Some (ErrLib ''connection refused'')
                       else None),
          exit_wait = (\<lambda>n. Exited None)\<rparr>
         (one_container ''c1'' (Some Running)) ''c1'') = Returns None
   \<and> issued (one_container ''c1'' (Some Running))
       (fst (snd (StopContainer
         \<lparr>fails = (\<lambda>k. if k = LoadContainer ''c1'' then Some (ErrLib ''connection refused'')
                       else None),
          exit_wait = (\<lambda>n. Exited None)\<rparr>
         (one_container ''c1'' (Some Running)) ''c1''))) = [LoadContainer ''c1'']
   \<and> conts (fst (snd (StopContainer
         \<lparr>fails = (\<lambda>k. if k = LoadContainer ''c1'' then Some (ErrLib ''connection refused'')
                       else None),
          exit_wait = (\<lambda>n. Exited None)\<rparr>
         (one_container ''c1'' (Some Running)) ''c1''))) ''c1'' = Some (Some Running)"
  by (simp add: StopContainer_def getContainerTask_def one_container_def issue_def issued_def)

text \<open>
  Claim C10, amended. Let \<^verbatim>\<open>StopContainer\<close> return \<^verbatim>\<open>nil\<close>. When its look-up finds the
  task, the last call of the run is the \<^verbatim>\<open>Delete\<close> of the task, whatever state was
  observed, and afterwards the engine has no task for the container: a new look-up
  answers not-found. When its look-up fails, for whatever reason, the run issues
  no \<^verbatim>\<open>Delete\<close> and leaves every container and task of the engine as it was.
\<close>

theorem StopContainer_deletes_task:
  assumes "fst (StopContainer w e n) = Returns None"
  shows "(fst (getContainerTask w e n) = Inr t \<longrightarrow>
           last (calls (fst (snd (StopContainer w e n)))) = Delete t
         \<and> Delete t \<in> set (issued e (fst (snd (StopContainer w e n))))
         \<and> conts (fst (snd (StopContainer w e n))) n = Some None
         \<and> fst (getContainerTask w (fst (snd (StopContainer w e n))) n) = Inl (ErrNotFound n))
       \<and> (fst (getContainerTask w e n) = Inl err \<longrightarrow>
           Delete n \<notin> set (issued e (fst (snd (StopContainer w e n))))
         \<and> conts (fst (snd (StopContainer w e n))) = conts e)"
proof (intro conjI impI)
  assume i: "fst (getContainerTask w e n) = Inl err"
  then obtain e1 where g: "getContainerTask w e n = (Inl err, e1)"
    by (cases "getContainerTask w e n") auto
  then have s1: "StopContainer w e n =
     (Returns None, e1, [Log DebugLevel ''no task found for container %s'' [AStr n]])"
    by (rule StopContainer_no_task)
  from g s1 show "Delete n \<notin> set (issued e (fst (snd (StopContainer w e n))))"
    using getContainerTask_Inl_Delete by simp
  from g s1 show "conts (fst (snd (StopContainer w e n))) = conts e"
    using getContainerTask_Inl by simp
next
  assume a: "fst (getContainerTask w e n) = Inr t"
  obtain e1 where g: "getContainerTask w e n = (Inr t, e1)"
    using a by (cases "getContainerTask w e n") auto
  then have t: "t = n" and c1: "calls e1 = calls e @ [LoadContainer n, Task n]"
    using getContainerTask_Inr by blast+
  from g have f: "fails w (LoadContainer n) = None" "fails w (Task n) = None"
    by (auto simp: getContainerTask_def Let_def split: option.splits)
  obtain s e2 where s: "task_Status w e1 t = (s, e2)"
    by (cases "task_Status w e1 t")
  have all: "last (calls (fst (snd (StopContainer w e n)))) = Delete t
       \<and> Delete t \<in> set (issued e (fst (snd (StopContainer w e n))))
       \<and> conts (fst (snd (StopContainer w e n))) n = Some None
       \<and> fst (getContainerTask w (fst (snd (StopContainer w e n))) n) = Inl (ErrNotFound n)"
  proof (cases s)
    case (Inl err)
    with g s assms show ?thesis
      by (simp add: StopContainer_def)
  next
    case (Inr st)
    with s have e2: "e2 = issue (Status t) e1"
      by (auto simp: task_Status_def Let_def split: option.splits)
    show ?thesis
      using g s Inr t c1 e2 f assms
      by (cases st)
         (auto simp: StopContainer_def task_defs issued_def issue_def Let_def
               getContainerTask_def
               split: option.splits wait_outcome.splits if_splits)
  qed
  from all show "last (calls (fst (snd (StopContainer w e n)))) = Delete t"
    by blast
  from all show "Delete t \<in> set (issued e (fst (snd (StopContainer w e n))))"
    by blast
  from all show "conts (fst (snd (StopContainer w e n))) n = Some None"
    by blast
  from all show
    "fst (getContainerTask w (fst (snd (StopContainer w e n))) n) = Inl (ErrNotFound n)"
    by blast
qed

theorem StopContainer_deletes_task_witness:
  "fst (StopContainer no_faults (one_container ''c1'' (Some Stopped)) ''c1'') = Returns None
   \<and> fst (getContainerTask no_faults (one_container ''c1'' (Some Stopped)) ''c1'') = Inr ''c1''
   \<and> last (calls (fst (snd (StopContainer no_faults (one_container ''c1'' (Some Stopped))
        ''c1'')))) = Delete ''c1''
   \<and> conts (fst (snd (StopContainer no_faults (one_container ''c1'' (Some Stopped)) ''c1'')))
        ''c1'' = Some None
   \<and> fst (StopContainer no_faults (one_container ''c1'' None) ''c1'') = Returns None
   \<and> fst (getContainerTask no_faults (one_container ''c1'' None) ''c1'')
        = Inl (ErrNotFound ''c1'')
   \<and> conts (fst (snd (StopContainer no_faults (one_container ''c1'' None) ''c1'')))
        = conts (one_container ''c1'' None)"
proof -
  have s: "fst (StopContainer no_faults (one_container ''c1'' (Some Stopped)) ''c1'')
             = Returns None"
    by (simp add: StopContainer_def task_defs run_defs)
  have g: "fst (getContainerTask no_faults (one_container ''c1'' (Some Stopped)) ''c1'')
             = Inr ''c1''"
    by (simp add: run_defs)
  have s': "fst (StopContainer no_faults (one_container ''c1'' None) ''c1'') = Returns None"
    by (simp add: StopContainer_def run_defs)
  have g': "fst (getContainerTask no_faults (one_container ''c1'' None) ''c1'')
             = Inl (ErrNotFound ''c1'')"
    by (simp add: run_defs)
  show ?thesis
    using s g s' g'
      StopContainer_deletes_task [OF s, of "''c1''" "ErrNotFound ''c1''"]
      StopContainer_deletes_task [OF s', of "''c1''" "ErrNotFound ''c1''"]
    by simp
qed

subsection \<open>Translating filters\<close>

lemma buildFilterString_step_entries:
  "entries (fst (buildFilterString_step g st)) t =
     entries (fst st) t @
       (if podman_supported g \<and> FilterType g = t then [podman_term g] else [])"
  by (cases st)
     (auto simp: buildFilterString_step_def buildFilterString_append_def entries_def
        podman_supported_def podman_term_def Let_def split: option.splits)

lemma buildFilterString_step_warnings:
  "warnings (snd (buildFilterString_step g st)) =
     warnings (snd st) @ (if podman_supported g then [] else [podman_warning g])"
  by (cases st)
     (auto simp: buildFilterString_step_def buildFilterString_append_def warnings_def
        podman_supported_def podman_warning_def Let_def split: option.splits)

lemma buildFilterString_loop_entries:
  "entries (fst (buildFilterString_loop fs st)) t =
     entries (fst st) t @
       map podman_term (filter (\<lambda>g. podman_supported g \<and> FilterType g = t) fs)"
  by (induction fs arbitrary: st) (simp_all add: buildFilterString_step_entries)

lemma buildFilterString_loop_warnings:
  "warnings (snd (buildFilterString_loop fs st)) =
     warnings (snd st) @ map podman_warning (filter (\<lambda>g. \<not> podman_supported g) fs)"
  by (induction fs arbitrary: st) (simp_all add: buildFilterString_step_warnings)

lemma buildFilterString_entries:
  "entries (fst (buildFilterString fs)) t =
     map podman_term (filter (\<lambda>g. podman_supported g \<and> FilterType g = t) fs)"
proof -
  obtain m l where r: "buildFilterString_loop fs (Map.empty, []) = (m, l)"
    by (cases "buildFilterString_loop fs (Map.empty, [])")
  show ?thesis
    using buildFilterString_loop_entries [of fs "(Map.empty, [])" t] r
    by (simp add: buildFilterString_def entries_def)
qed

lemma buildFilterString_warnings:
  "warnings (snd (buildFilterString fs)) =
     map podman_warning (filter (\<lambda>g. \<not> podman_supported g) fs)"
proof -
  obtain m l where r: "buildFilterString_loop fs (Map.empty, []) = (m, l)"
    by (cases "buildFilterString_loop fs (Map.empty, [])")
  show ?thesis
    using buildFilterString_loop_warnings [of fs "(Map.empty, [])"] r
    by (simp add: buildFilterString_def warnings_def)
qed

lemma filterStringBuilder_loop_labels:
  "d = [] \<or> d = '','' \<Longrightarrow>
   \<exists>ds. length ds = length (filter is_label fs) \<and> delims ds \<and>
     filterStringBuilder_loop fs acc d = acc @ with_delims (filter is_label fs) ds"
proof (induction fs arbitrary: acc d)
  case Nil
  then show ?case by (simp add: with_delims_def delims_def)
next
  case (Cons f fs)
  show ?case
  proof (cases "is_label f")
    case False
    from Cons.IH [of "'',''" acc] obtain ds where
      "length ds = length (filter is_label fs)" "delims ds"
      "filterStringBuilder_loop fs acc '','' = acc @ with_delims (filter is_label fs) ds"
      by auto
    moreover have
      "filterStringBuilder_loop (f # fs) acc d = filterStringBuilder_loop fs acc '',''"
      using False by (auto simp: is_label_def)
    ultimately show ?thesis using False
      by (intro exI [of _ ds]) simp
  next
    case True
    define d' where "d' = (if Operator f = ''exists'' then [] else d)"
    from Cons.IH [of "'',''" "acc @ containerd_term f @ d'"] obtain ds where ds:
      "length ds = length (filter is_label fs)" "delims ds"
      "filterStringBuilder_loop fs (acc @ containerd_term f @ d') '','' =
         (acc @ containerd_term f @ d') @ with_delims (filter is_label fs) ds"
      by auto
    have "filterStringBuilder_loop (f # fs) acc d =
            filterStringBuilder_loop fs (acc @ containerd_term f @ d') '',''"
      using True by (auto simp: is_label_def containerd_term_def d'_def)
    with ds True Cons.prems show ?thesis
      by (intro exI [of _ "d' # ds"]) (auto simp: with_delims_def delims_def d'_def)
  qed
qed

lemma filterStringBuilder_loop_append:
  "filterStringBuilder_loop (xs @ ys) acc d =
     filterStringBuilder_loop ys (filterStringBuilder_loop xs acc d)
       (if xs = [] then d else '','')"
  by (induction xs arbitrary: acc d) (simp_all add: Let_def split: prod.splits)

lemma buildFilterString_exists_step:
  "Operator f = ''exists'' \<Longrightarrow>
   fst (buildFilterString_step f st) =
     (fst st)(FilterType f \<mapsto> entries (fst st) (FilterType f) @
        [if FilterType f = ''name'' then [] else Field f @ ''=''])"
  by (cases st)
     (auto simp: buildFilterString_step_def buildFilterString_append_def entries_def Let_def
           split: option.splits)

lemma buildFilterString_step_fst:
  "fst (buildFilterString_step g (m, l)) = fst (buildFilterString_step g (m, l'))"
  by (auto simp: buildFilterString_step_def buildFilterString_append_def Let_def
      split: option.splits)

lemma buildFilterString_loop_fst:
  "fst (buildFilterString_loop fs (m, l)) = fst (buildFilterString_loop fs (m, l'))"
proof (induction fs arbitrary: m l l')
  case Nil
  show ?case by simp
next
  case (Cons g fs)
  obtain m1 l1 where a: "buildFilterString_step g (m, l) = (m1, l1)"
    by (cases "buildFilterString_step g (m, l)")
  obtain m2 l2 where b: "buildFilterString_step g (m, l') = (m2, l2)"
    by (cases "buildFilterString_step g (m, l')")
  from a b buildFilterString_step_fst [of g m l l'] have "m1 = m2" by simp
  with a b Cons.IH [of m1 l1 l2] show ?case by simp
qed

lemma buildFilterString_loop_append:
  "buildFilterString_loop (xs @ ys) st =
     buildFilterString_loop ys (buildFilterString_loop xs st)"
  by (induction xs arbitrary: st) simp_all

lemma buildFilterString_fst:
  "fst (buildFilterString fs) = fst (buildFilterString_loop fs (Map.empty, []))"
  by (simp add: buildFilterString_def split: prod.splits)

text \<open>
  Claim C8, as the claim states it: each driver skips an unsupported filter with a
  warning. The containerd driver translates filters of type \<^verbatim>\<open>label\<close> only; a filter
  of type \<^verbatim>\<open>name\<close> adds nothing to the query, and the log holds the debug line and no
  warning.
\<close>

theorem filterStringBuilder_skips_silently:
  "filterStringBuilder
       [\<lparr>FilterType = ''name'', Field = [], Operator = ''='', Match = ''node1''\<rparr>] =
     ([], [Log DebugLevel ''Filterstring: '' []])
   \<and> warnings (snd (filterStringBuilder
       [\<lparr>FilterType = ''name'', Field = [], Operator = ''='', Match = ''node1''\<rparr>])) = []"
  by (simp add: filterStringBuilder_def warnings_def Let_def)

text \<open>
  Claim C8, amended. Neither translation has a failing branch. The podman driver
  skips, with one warning each, the filters that are neither of type \<^verbatim>\<open>name\<close> nor
  of operator \<^verbatim>\<open>=\<close> or \<^verbatim>\<open>exists\<close>, and the filter strings under a type are those of
  the other filters of that type, in order. The containerd driver never warns; its
  query is made of the texts of the filters of type \<^verbatim>\<open>label\<close>, in order, each
  followed by a delimiter or by nothing, and the filters of any other type add
  nothing.
\<close>

theorem filter_translation_skips:
  "entries (fst (buildFilterString fs)) t =
     map podman_term (filter (\<lambda>g. podman_supported g \<and> FilterType g = t) fs)
   \<and> warnings (snd (buildFilterString fs)) =
     map podman_warning (filter (\<lambda>g. \<not> podman_supported g) fs)
   \<and> warnings (snd (filterStringBuilder fs)) = []
   \<and> (\<exists>ds. length ds = length (filter is_label fs) \<and> delims ds \<and>
        fst (filterStringBuilder fs) = with_delims (filter is_label fs) ds)"
proof (intro conjI)
  show "entries (fst (buildFilterString fs)) t =
     map podman_term (filter (\<lambda>g. podman_supported g \<and> FilterType g = t) fs)"
    by (rule buildFilterString_entries)
  show "warnings (snd (buildFilterString fs)) =
     map podman_warning (filter (\<lambda>g. \<not> podman_supported g) fs)"
    by (rule buildFilterString_warnings)
  show "warnings (snd (filterStringBuilder fs)) = []"
    by (simp add: filterStringBuilder_def warnings_def Let_def)
  show "\<exists>ds. length ds = length (filter is_label fs) \<and> delims ds \<and>
        fst (filterStringBuilder fs) = with_delims (filter is_label fs) ds"
    using filterStringBuilder_loop_labels [of "[]" fs "[]"]
    by (simp add: filterStringBuilder_def Let_def)
qed

theorem filter_translation_skips_witness:
  "entries (fst (buildFilterString
       [\<lparr>FilterType = ''label'', Field = ''a'', Operator = ''!='', Match = ''1''\<rparr>,
        \<lparr>FilterType = ''label'', Field = ''b'', Operator = ''='', Match = ''2''\<rparr>]))
     ''label'' = [''b=2'']
   \<and> warnings (snd (buildFilterString
       [\<lparr>FilterType = ''label'', Field = ''a'', Operator = ''!='', Match = ''1''\<rparr>,
        \<lparr>FilterType = ''label'', Field = ''b'', Operator = ''='', Match = ''2''\<rparr>])) =
     [podman_warning \<lparr>FilterType = ''label'', Field = ''a'', Operator = ''!='', Match = ''1''\<rparr>]"
  using filter_translation_skips
    [of "[\<lparr>FilterType = ''label'', Field = ''a'', Operator = ''!='', Match = ''1''\<rparr>,
          \<lparr>FilterType = ''label'', Field = ''b'', Operator = ''='', Match = ''2''\<rparr>]"
        "''label''"]
  by (simp add: podman_supported_def podman_term_def)

text \<open>
  Claim C9, as the claim states it: the term of a filter with the operator
  \<^verbatim>\<open>exists\<close> holds no equality against a value, empty or not. The podman driver
  rewrites the operator to \<^verbatim>\<open>=\<close> and the value to the empty string: the filter
  string of the label filter \<^verbatim>\<open>containerlab exists\<close> is \<^verbatim>\<open>containerlab=\<close>.
\<close>

theorem buildFilterString_exists_is_equality:
  "entries (fst (buildFilterString
       [\<lparr>FilterType = ''label'', Field = ''containerlab'', Operator = ''exists'',
         Match = []\<rparr>])) ''label'' = [''containerlab='']"
  by (simp add: buildFilterString_def buildFilterString_step_def
      buildFilterString_append_def entries_def Let_def)

text \<open>
  Claim C9, amended. For a filter with the operator \<^verbatim>\<open>exists\<close>: the containerd
  driver adds \<^verbatim>\<open>labels.\<close> and the field when the type is \<^verbatim>\<open>label\<close>, with no operator
  and no value, and nothing otherwise; the podman driver adds, under the type of
  the filter, the field followed by \<^verbatim>\<open>=\<close> and no value (the empty string for the
  type \<^verbatim>\<open>name\<close>); and in both drivers the match value of the filter does not reach
  the query: any other match value gives the same query.
\<close>

theorem exists_filter_term:
  assumes "Operator f = ''exists''"
  shows "filterStringBuilder_loop (f # rest) acc d =
           filterStringBuilder_loop rest
             (if FilterType f = ''label'' then acc @ ''labels.'' @ Field f else acc) '',''
       \<and> fst (buildFilterString_step f st) =
           (fst st)(FilterType f \<mapsto> entries (fst st) (FilterType f) @
              [if FilterType f = ''name'' then [] else Field f @ ''=''])
       \<and> fst (filterStringBuilder (fs1 @ f # fs2)) =
           fst (filterStringBuilder (fs1 @ f\<lparr>Match := m\<rparr> # fs2))
       \<and> fst (buildFilterString (fs1 @ f # fs2)) =
           fst (buildFilterString (fs1 @ f\<lparr>Match := m\<rparr> # fs2))"
proof (intro conjI)
  show "filterStringBuilder_loop (f # rest) acc d =
     filterStringBuilder_loop rest
       (if FilterType f = ''label'' then acc @ ''labels.'' @ Field f else acc) '',''"
    using assms by simp
  show "fst (buildFilterString_step f st) =
     (fst st)(FilterType f \<mapsto> entries (fst st) (FilterType f) @
        [if FilterType f = ''name'' then [] else Field f @ ''=''])"
    using assms by (rule buildFilterString_exists_step)
  show "fst (filterStringBuilder (fs1 @ f # fs2)) =
      fst (filterStringBuilder (fs1 @ f\<lparr>Match := m\<rparr> # fs2))"
    using assms by (simp add: filterStringBuilder_def Let_def filterStringBuilder_loop_append)
  have s: "fst (buildFilterString_step (f\<lparr>Match := m\<rparr>) st') =
             fst (buildFilterString_step f st')" for st'
    using assms buildFilterString_exists_step [of f st']
      buildFilterString_exists_step [of "f\<lparr>Match := m\<rparr>" st']
    by simp
  obtain m0 l0 where st0: "buildFilterString_loop fs1 (Map.empty, []) = (m0, l0)"
    by (cases "buildFilterString_loop fs1 (Map.empty, [])")
  obtain m1 l1 where a: "buildFilterString_step f (m0, l0) = (m1, l1)"
    by (cases "buildFilterString_step f (m0, l0)")
  obtain m2 l2 where b: "buildFilterString_step (f\<lparr>Match := m\<rparr>) (m0, l0) = (m2, l2)"
    by (cases "buildFilterString_step (f\<lparr>Match := m\<rparr>) (m0, l0)")
  from a b s [of "(m0, l0)"] have "m2 = m1" by simp
  with a b st0 buildFilterString_loop_fst [of fs2 m1 l1 l2]
  show "fst (buildFilterString (fs1 @ f # fs2)) =
      fst (buildFilterString (fs1 @ f\<lparr>Match := m\<rparr> # fs2))"
    by (simp add: buildFilterString_fst buildFilterString_loop_append)
qed

theorem exists_filter_term_witness:
  "Operator \<lparr>FilterType = ''label'', Field = ''containerlab'', Operator = ''exists'',
             Match = ''x''\<rparr> = ''exists''
   \<and> filterStringBuilder_loop
       [\<lparr>FilterType = ''label'', Field = ''containerlab'', Operator = ''exists'',
         Match = ''x''\<rparr>] [] [] = ''labels.containerlab''
   \<and> entries (fst (buildFilterString_step
         \<lparr>FilterType = ''label'', Field = ''containerlab'', Operator = ''exists'',
          Match = ''x''\<rparr> (Map.empty, []))) ''label'' = [''containerlab='']"
  using exists_filter_term
    [of "\<lparr>FilterType = ''label'', Field = ''containerlab'', Operator = ''exists'',
          Match = ''x''\<rparr>" "[]" "[]" "[]" "(Map.empty, [])" "[]" "[]" "[]"]
  by (simp add: entries_def)

subsection \<open>The container specification of the podman driver\<close>








lemmas spec_defs = createContainerSpec_def createContainerSpec_mounts_def
  createContainerSpec_limits_def createContainerSpec_net_def convertMounts_def
  convertMount_def mounts_of_def host_node_def few_libs_def clab_runtime_def index_def
  no_network_def numeral_3_eq_3 numeral_2_eq_2 Let_def

lemma createContainerSpec_good_bind:
  "mounts_of (fst (createContainerSpec few_libs clab_runtime (host_node [''/a:/b'']))) =
     Inr [\<lparr>Destination = ''/b'', Type = ''bind'', Source = ''/a'', Options = []\<rparr>]"
  by (simp add: spec_defs)




end
